theory Spec2Isabelle
  imports Main "HOL-Library.Word"
begin

unbundle bit_operations_syntax

section \<open>C data of the two probes\<close>

text \<open>
  The repository holds two C entry points over the platform's \<open>copyfile(3)\<close>:
  \<open>main\<close> of \<open>test.c\<close> (the standalone probe) and \<open>copyfile_\<close> of
  \<open>src/copyfile.c\<close> (the probe bound to R through \<open>.Call\<close>).

  A C \<open>int\<close> is a 32-bit word, read as two's complement through \<open>sint\<close>;
  \<open>copyfile_flags_t\<close> is \<open>uint32_t\<close>. A \<open>char *\<close> is a string or the null
  pointer (\<open>None\<close>); a \<open>copyfile_state_t\<close> is a handle or the null pointer.
\<close>

type_synonym cint = "32 word"
type_synonym copyfile_flags_t = "32 word"
type_synonym cstring = "string option"
type_synonym copyfile_state_t = "nat option"

text \<open>An R value: \<open>R_NilValue\<close>, or some other object.\<close>

datatype SEXP = R_NilValue | R_Object nat

text \<open>One invocation of \<open>copyfile(from, to, state, flags)\<close>, as the library sees it.\<close>

record copyfile_call =
  from_arg :: cstring
  to_arg :: cstring
  state_arg :: copyfile_state_t
  flags_arg :: copyfile_flags_t

text \<open>
  What the headers \<open>copyfile.h\<close> and \<open>string.h\<close> and the library behind them
  provide. None of it is code of the repository, so it is a parameter of both probes:
  the two flag macros, the copy primitive (from the call and the value of \<open>errno\<close> on
  entry to the return value and the value of \<open>errno\<close> on exit),
  \<open>copyfile_state_alloc()\<close> (from \<open>errno\<close> on entry to the handle, null when
  the allocation fails, and \<open>errno\<close> on exit), \<open>strerror\<close>, and what
  \<open>printf\<close> and \<open>Rprintf\<close> leave in \<open>errno\<close> (from the text printed and
  \<open>errno\<close> on entry). With them comes the file system the probe runs on, as far as
  the claims speak of it: which paths exist.
\<close>

record platform =
  COPYFILE_ALL :: copyfile_flags_t
  COPYFILE_EXCL :: copyfile_flags_t
  copyfile :: "copyfile_call \<Rightarrow> cint \<Rightarrow> cint \<times> cint"
  copyfile_state_alloc :: "cint \<Rightarrow> copyfile_state_t \<times> cint"
  strerror :: "cint \<Rightarrow> string"
  printf_errno :: "string \<Rightarrow> cint \<Rightarrow> cint"
  Rprintf_errno :: "string \<Rightarrow> cint \<Rightarrow> cint"
  path_exists :: "string \<Rightarrow> bool"

text \<open>
  The state the probes read and write: \<open>errno\<close>, the variable \<open>s\<close> of
  \<open>copyfile.c\<close>, the text written to standard output, the text written to the R
  console, and the log of the calls made to the copy primitive.
\<close>

record world =
  errno :: cint
  var_s :: copyfile_state_t
  stdout :: string
  console :: string
  calls :: "copyfile_call list"

section \<open>The macro of copyfile.c\<close>

text \<open>\<open>#define COPYFILE_DEBUG (1<<31)\<close>\<close>

definition COPYFILE_DEBUG :: cint where
  "COPYFILE_DEBUG = push_bit 31 1"

section \<open>Library calls\<close>

text \<open>
  Every library call that stands between two uses of \<open>errno\<close> may write it: the copy
  primitive, the allocator, \<open>printf\<close> and \<open>Rprintf\<close>. \<open>strerror\<close> is the
  string it returns.
\<close>

definition call_copyfile ::
  "platform \<Rightarrow> cstring \<Rightarrow> cstring \<Rightarrow> copyfile_state_t \<Rightarrow> copyfile_flags_t \<Rightarrow> world
     \<Rightarrow> cint \<times> world" where
  "call_copyfile P from to st fl w =
     (let c = \<lparr>from_arg = from, to_arg = to, state_arg = st, flags_arg = fl\<rparr>;
          r = copyfile P c (errno w)
      in (fst r, w\<lparr>errno := snd r, calls := calls w @ [c]\<rparr>))"

text \<open>The conversion \<open>%i\<close>: a signed decimal numeral.\<close>

definition digit_char :: "nat \<Rightarrow> char" where
  "digit_char d = ''0123456789'' ! d"

fun dec :: "nat \<Rightarrow> string" where
  "dec n = (if n < 10 then [digit_char n] else dec (n div 10) @ [digit_char (n mod 10)])"

declare dec.simps [simp del]

definition fmt_i :: "cint \<Rightarrow> string" where
  "fmt_i v = (if sint v < 0 then CHR ''-'' # dec (nat (- sint v)) else dec (nat (sint v)))"

text \<open>The format \<open>"%i:%i:%s"\<close> applied to its three arguments.\<close>

definition fmt_i_i_s :: "cint \<Rightarrow> cint \<Rightarrow> string \<Rightarrow> string" where
  "fmt_i_i_s r e m = fmt_i r @ '':'' @ fmt_i e @ '':'' @ m"

definition call_copyfile_state_alloc :: "platform \<Rightarrow> world \<Rightarrow> copyfile_state_t \<times> world" where
  "call_copyfile_state_alloc P w =
     (let r = copyfile_state_alloc P (errno w) in (fst r, w\<lparr>errno := snd r\<rparr>))"

definition printf :: "platform \<Rightarrow> string \<Rightarrow> world \<Rightarrow> world" where
  "printf P txt w = w\<lparr>stdout := stdout w @ txt, errno := printf_errno P txt (errno w)\<rparr>"

definition Rprintf :: "platform \<Rightarrow> string \<Rightarrow> world \<Rightarrow> world" where
  "Rprintf P txt w = w\<lparr>console := console w @ txt, errno := Rprintf_errno P txt (errno w)\<rparr>"

section \<open>The argument vector\<close>

text \<open>
  \<open>argv\<close> is modelled by the list of the \<open>argc\<close> strings the program was started
  with, the program name first. The C array has one slot more: \<open>argv[argc]\<close> is a null
  pointer. Reading slot \<open>i\<close> gives the string for \<open>i < argc\<close>, the null pointer for
  \<open>i = argc\<close>, and is out of bounds (\<open>None\<close>) beyond.
\<close>

definition argv_read :: "string list \<Rightarrow> nat \<Rightarrow> cstring option" where
  "argv_read argv i =
     (if i < length argv then Some (Some (argv ! i))
      else if i = length argv then Some None
      else None)"

section \<open>test.c: the standalone probe\<close>

text \<open>
  \<^verbatim>\<open>
  int main(int argc, char **argv) {
    errno = 0;
    int res = copyfile(argv[1], argv[2], NULL, COPYFILE_ALL | COPYFILE_EXCL);
    if (res == -1) {
      printf("%i:%i:%s", res, errno, strerror(errno));
    }
    return errno;
  }
  \<close>
  The result is \<open>None\<close> when a read of \<open>argv\<close> is out of bounds, and otherwise the
  value returned from \<open>main\<close> (the exit code) with the final state.
\<close>

definition main :: "platform \<Rightarrow> cint \<Rightarrow> string list \<Rightarrow> world \<Rightarrow> (cint \<times> world) option" where
  "main P argc argv w0 =
     (let w1 = w0\<lparr>errno := 0\<rparr> in
      case argv_read argv 1 of
        None \<Rightarrow> None
      | Some a1 \<Rightarrow>
          (case argv_read argv 2 of
             None \<Rightarrow> None
           | Some a2 \<Rightarrow>
               (let (res, w2) = call_copyfile P a1 a2 None (COPYFILE_ALL P OR COPYFILE_EXCL P) w1;
                    w3 = (if res = - 1
                          then printf P (fmt_i_i_s res (errno w2) (strerror P (errno w2))) w2
                          else w2)
                in Some (errno w3, w3))))"

section \<open>src/copyfile.c: the probe bound to R\<close>

text \<open>
  \<^verbatim>\<open>
  SEXP copyfile_() {
    errno = 0;
    s = copyfile_state_alloc();
    int res = copyfile("a", "b", NULL, COPYFILE_ALL | COPYFILE_EXCL | COPYFILE_DEBUG);
    Rprintf("%i:%i:%s\n", res, errno, strerror(errno));
    return R_NilValue;
  }
  \<close>
  Isabelle names cannot end in an underscore, so \<open>copyfile_\<close> is \<open>copyfile_R\<close> here.
\<close>

definition copyfile_R :: "platform \<Rightarrow> world \<Rightarrow> SEXP \<times> world" where
  "copyfile_R P w0 =
     (let w1 = w0\<lparr>errno := 0\<rparr>;
          (h, wa) = call_copyfile_state_alloc P w1;
          w2 = wa\<lparr>var_s := h\<rparr>;
          (res, w3) = call_copyfile P (Some ''a'') (Some ''b'') None
                        ((COPYFILE_ALL P OR COPYFILE_EXCL P) OR COPYFILE_DEBUG) w2;
          w4 = Rprintf P (fmt_i_i_s res (errno w3) (strerror P (errno w3)) @ [CHR 0x0A]) w3
      in (R_NilValue, w4))"

text \<open>
  \<^verbatim>\<open>
  static const R_CallMethodDef CallEntries[] = {{"copyfile_", (DL_FUNC)&copyfile_, 0},
                                                {NULL, NULL, 0}};
  \<close>
  The table without its terminating entry: name, function, number of arguments.
\<close>

definition CallEntries :: "(string \<times> (platform \<Rightarrow> world \<Rightarrow> SEXP \<times> world) \<times> nat) list" where
  "CallEntries = [(''copyfile_'', copyfile_R, 0)]"

section \<open>A platform and a state for concrete runs\<close>

text \<open>
  A platform with the values of macOS (\<open>COPYFILE_ALL = 15\<close>,
  \<open>COPYFILE_EXCL = 1<<17\<close>, \<open>ENOENT = 2\<close>, \<open>ENOMEM = 12\<close>, \<open>EEXIST = 17\<close>,
  \<open>EINVAL = 22\<close>, \<open>ENOTTY = 25\<close>) and a file system given by the list of the paths
  that exist. Its copy primitive fails on a null path, on an existing destination when the
  exclusive-create flag is set and on a missing source, and otherwise succeeds and leaves
  \<open>errno\<close> as it found it. Its allocator succeeds, and its allocator, \<open>printf\<close> and
  \<open>Rprintf\<close> leave \<open>errno\<close> as they found it. The concrete runs below replace
  single fields: a \<open>printf\<close> whose first write finds that standard output is no
  terminal and leaves \<open>ENOTTY\<close>, an allocator that fails and leaves \<open>ENOMEM\<close>.
\<close>

definition darwin_strerror :: "cint \<Rightarrow> string" where
  "darwin_strerror e =
     (if e = 0 then ''Undefined error: 0''
      else if e = 2 then ''No such file or directory''
      else if e = 12 then ''Cannot allocate memory''
      else if e = 17 then ''File exists''
      else if e = 22 then ''Invalid argument''
      else if e = 25 then ''Inappropriate ioctl for device''
      else ''Unknown error'')"

definition darwin_copyfile :: "string list \<Rightarrow> copyfile_call \<Rightarrow> cint \<Rightarrow> cint \<times> cint" where
  "darwin_copyfile files c e =
     (case from_arg c of
        None \<Rightarrow> (- 1, 22)
      | Some f \<Rightarrow>
          (case to_arg c of
             None \<Rightarrow> (- 1, 22)
           | Some t \<Rightarrow>
               if t \<in> set files \<and> flags_arg c AND 0x20000 = 0x20000 then (- 1, 17)
               else if f \<notin> set files then (- 1, 2)
               else (0, e)))"

definition darwin :: "string list \<Rightarrow> platform" where
  "darwin files =
     \<lparr>COPYFILE_ALL = 15, COPYFILE_EXCL = 0x20000, copyfile = darwin_copyfile files,
      copyfile_state_alloc = (\<lambda>e. (Some 1, e)), strerror = darwin_strerror,
      printf_errno = (\<lambda>txt e. e), Rprintf_errno = (\<lambda>txt e. e),
      path_exists = (\<lambda>p. p \<in> set files)\<rparr>"


definition darwin_nomem :: "string list \<Rightarrow> platform" where
  "darwin_nomem files = (darwin files)\<lparr>copyfile_state_alloc := (\<lambda>e. (None, 12))\<rparr>"

definition start :: world where
  "start = \<lparr>errno = 5, var_s = None, stdout = [], console = [], calls = []\<rparr>"

section \<open>The platform's exclusive-create\<close>


section \<open>What each probe computes\<close>

lemma main_run:
  assumes "argv_read argv 1 = Some a1" and "argv_read argv 2 = Some a2"
  shows "main P argc argv w =
    (let c = \<lparr>from_arg = a1, to_arg = a2, state_arg = None,
                flags_arg = COPYFILE_ALL P OR COPYFILE_EXCL P\<rparr>;
         r = copyfile P c 0;
         txt = fmt_i_i_s (fst r) (snd r) (strerror P (snd r));
         x = (if fst r = - 1 then printf_errno P txt (snd r) else snd r)
     in Some (x,
          w\<lparr>errno := x,
            stdout := stdout w @ (if fst r = - 1 then txt else []),
            calls := calls w @ [c]\<rparr>))"
  using assms by (simp add: main_def call_copyfile_def printf_def Let_def)

lemma argv_read_paths:
  "argv_read (prog # src # dst # rest) 1 = Some (Some src)"
  "argv_read (prog # src # dst # rest) 2 = Some (Some dst)"
  by (simp_all add: argv_read_def)

lemma copyfile_R_run:
  "copyfile_R P w =
    (let c = \<lparr>from_arg = Some ''a'', to_arg = Some ''b'', state_arg = None,
                flags_arg = (COPYFILE_ALL P OR COPYFILE_EXCL P) OR COPYFILE_DEBUG\<rparr>;
         a = copyfile_state_alloc P 0;
         r = copyfile P c (snd a);
         txt = fmt_i_i_s (fst r) (snd r) (strerror P (snd r)) @ [CHR 0x0A]
     in (R_NilValue,
          w\<lparr>errno := Rprintf_errno P txt (snd r), var_s := fst a,
            console := console w @ txt,
            calls := calls w @ [c]\<rparr>))"
  by (simp add: copyfile_R_def call_copyfile_def call_copyfile_state_alloc_def Rprintf_def
      Let_def split_beta)

lemma fmt_i_minus_one: "fmt_i (- 1) = ''-1''"
  by code_simp

lemma fmt_i_0: "fmt_i 0 = ''0''"
  by code_simp

lemma fmt_i_12: "fmt_i 12 = ''12''"
  by code_simp

lemma fmt_i_17: "fmt_i 17 = ''17''"
  by code_simp

lemma fmt_i_22: "fmt_i 22 = ''22''"
  by code_simp




section \<open>The standalone probe\<close>




text \<open>
  Claim C2. The standalone probe prints the return code, the value of \<open>errno\<close> left
  by the copy call and its description (\<open>strerror\<close>) to standard output exactly when
  the copy primitive returns -1, its error value; for every other return value standard
  output stays as it was. Nothing goes to the R console.
\<close>

theorem main_prints_iff_error:
  assumes "argv_read argv 1 = Some a1" and "argv_read argv 2 = Some a2"
  shows "let c = \<lparr>from_arg = a1, to_arg = a2, state_arg = None,
                   flags_arg = COPYFILE_ALL P OR COPYFILE_EXCL P\<rparr>;
             res = fst (copyfile P c 0);
             e = snd (copyfile P c 0)
         in \<exists>x w'. main P argc argv w = Some (x, w')
              \<and> stdout w' = stdout w @ (if res = - 1 then fmt_i res @ '':'' @ fmt_i e @ '':'' @ strerror P e else [])
              \<and> ((stdout w' \<noteq> stdout w) = (res = - 1))
              \<and> console w' = console w"
  using assms by (simp add: main_run Let_def fmt_i_i_s_def)

theorem main_prints_iff_error_witness:
  "argv_read [''test'', ''a'', ''b''] 1 = Some (Some ''a'')
   \<and> argv_read [''test'', ''a'', ''b''] 2 = Some (Some ''b'')
   \<and> (\<exists>x w'. main (darwin [''a'', ''b'']) 3 [''test'', ''a'', ''b''] start = Some (x, w')
          \<and> stdout w' = ''-1:17:File exists'')
   \<and> (\<exists>x w'. main (darwin [''a'']) 3 [''test'', ''a'', ''b''] start = Some (x, w')
          \<and> stdout w' = [])"
proof -
  have r1: "argv_read [''test'', ''a'', ''b''] 1 = Some (Some ''a'')"
    and r2: "argv_read [''test'', ''a'', ''b''] 2 = Some (Some ''b'')"
    by (simp_all add: argv_read_def)
  show ?thesis
    using main_prints_iff_error [OF r1 r2, of "darwin [''a'', ''b'']" 3 start]
      main_prints_iff_error [OF r1 r2, of "darwin [''a'']" 3 start]
    by (auto simp add: argv_read_def Let_def darwin_def darwin_copyfile_def darwin_strerror_def
        start_def fmt_i_minus_one fmt_i_17)
qed




section \<open>The probe bound to R\<close>

text \<open>
  Claim C4. The bound probe is registered with zero arguments, and each run of it calls
  the copy primitive exactly once: on the literal paths \<open>"a"\<close> and \<open>"b"\<close>, with
  a null state and with the flags \<open>COPYFILE_ALL | COPYFILE_EXCL | COPYFILE_DEBUG\<close>.
\<close>

theorem copyfile_R_single_call:
  "calls (snd (copyfile_R P w)) =
     calls w @ [\<lparr>from_arg = Some ''a'', to_arg = Some ''b'', state_arg = None,
                 flags_arg = (COPYFILE_ALL P OR COPYFILE_EXCL P) OR COPYFILE_DEBUG\<rparr>]
   \<and> map (\<lambda>(name, f, numArgs). (name, numArgs)) CallEntries = [(''copyfile_'', 0)]
   \<and> map (\<lambda>(name, f, numArgs). f) CallEntries = [copyfile_R]"
  by (simp add: copyfile_R_run Let_def CallEntries_def)

theorem copyfile_R_single_call_witness:
  "calls (snd (copyfile_R (darwin [''a'']) start)) =
     [\<lparr>from_arg = Some ''a'', to_arg = Some ''b'', state_arg = None, flags_arg = 0x8002000F\<rparr>]"
  using copyfile_R_single_call [of "darwin [''a'']" start]
  by (simp add: darwin_def start_def COPYFILE_DEBUG_def)

text \<open>
  Claim C5. Whatever the copy call does, the bound probe returns \<open>R_NilValue\<close>: two
  runs on any two platforms and states return the same value, so the value tells the
  caller nothing about the outcome. (The witness shows two runs whose printed text
  differs while the returned value does not.)
\<close>

theorem copyfile_R_returns_nil:
  "fst (copyfile_R P w) = R_NilValue \<and> fst (copyfile_R P w) = fst (copyfile_R Q v)"
  by (simp add: copyfile_R_run Let_def)

theorem copyfile_R_returns_nil_witness:
  "fst (copyfile_R (darwin [''a'']) start) = R_NilValue
   \<and> fst (copyfile_R (darwin [''a'', ''b'']) start) = R_NilValue
   \<and> console (snd (copyfile_R (darwin [''a'']) start))
       \<noteq> console (snd (copyfile_R (darwin [''a'', ''b'']) start))"
  using copyfile_R_returns_nil [of "darwin [''a'']" start "darwin [''a'', ''b'']" start]
  by (simp add: copyfile_R_run Let_def darwin_def darwin_copyfile_def COPYFILE_DEBUG_def
      fmt_i_i_s_def fmt_i_0 fmt_i_minus_one)

text \<open>
  Claim C7 as stated does not hold of the text printed. The format of the bound probe is
  \<open>"%i:%i:%s\n"\<close>: the text that reaches the console ends in a newline, so it is not
  the bare triple \<open><result>:<errno>:<error-string>\<close>.
  On a platform where \<open>"b"\<close> exists the console receives \<open>-1:17:File exists\<close> and
  a newline.
\<close>

theorem copyfile_R_output_counterexample:
  "console (snd (copyfile_R (darwin [''a'', ''b'']) start)) = ''-1:17:File exists'' @ [CHR 0x0A]
   \<and> console (snd (copyfile_R (darwin [''a'', ''b'']) start)) \<noteq> ''-1:17:File exists''
   \<and> copyfile (darwin [''a'', ''b''])
        \<lparr>from_arg = Some ''a'', to_arg = Some ''b'', state_arg = None,
         flags_arg = (COPYFILE_ALL (darwin [''a'', ''b'']) OR COPYFILE_EXCL (darwin [''a'', ''b'']))
                       OR COPYFILE_DEBUG\<rparr>
        (snd (copyfile_state_alloc (darwin [''a'', ''b'']) 0)) = (- 1, 17)
   \<and> console start @ fmt_i (- 1) @ '':'' @ fmt_i 17 @ '':'' @ strerror (darwin [''a'', ''b'']) 17
        = ''-1:17:File exists''"
  by (simp add: copyfile_R_run Let_def darwin_def darwin_copyfile_def darwin_strerror_def
      COPYFILE_DEBUG_def fmt_i_i_s_def fmt_i_17 fmt_i_minus_one start_def)

text \<open>
  Claim C7 (amended). On every run of the bound probe the text added to the R console is
  exactly the result of the copy call, the value of \<open>errno\<close> it left and the
  description of that value, as \<open><result>:<errno>:<error-string>\<close> followed by
  one newline character. Standard output is not written.
\<close>

theorem copyfile_R_output:
  "let c = \<lparr>from_arg = Some ''a'', to_arg = Some ''b'', state_arg = None,
              flags_arg = (COPYFILE_ALL P OR COPYFILE_EXCL P) OR COPYFILE_DEBUG\<rparr>;
       res = fst (copyfile P c (snd (copyfile_state_alloc P 0)));
       e = snd (copyfile P c (snd (copyfile_state_alloc P 0)))
   in console (snd (copyfile_R P w)) =
        console w @ fmt_i res @ '':'' @ fmt_i e @ '':'' @ strerror P e @ [CHR 0x0A]
      \<and> stdout (snd (copyfile_R P w)) = stdout w"
  by (simp add: copyfile_R_run Let_def fmt_i_i_s_def)

theorem copyfile_R_output_witness:
  "console (snd (copyfile_R (darwin [''a'']) start)) = ''0:0:Undefined error: 0'' @ [CHR 0x0A]"
  using copyfile_R_output [of "darwin [''a'']" start]
  by (simp add: Let_def darwin_def darwin_copyfile_def darwin_strerror_def
      COPYFILE_DEBUG_def fmt_i_0 start_def)

text \<open>
  Claim C8 as stated does not hold of the printed output. \<open>errno\<close> is reset before
  the allocation, not after it, so what the allocator leaves in \<open>errno\<close> is what the
  copy call starts from. With an allocator that fails and leaves \<open>ENOMEM\<close> (12) and a
  copy that succeeds without setting \<open>errno\<close>, the line printed is
  \<open>0:12:Cannot allocate memory\<close>; with the allocator that succeeds it is
  \<open>0:0:Undefined error: 0\<close>. The calls made are the same.
\<close>

theorem copyfile_R_state_counterexample:
  "console (snd (copyfile_R (darwin [''a'']) start)) = ''0:0:Undefined error: 0'' @ [CHR 0x0A]
   \<and> console (snd (copyfile_R (darwin_nomem [''a'']) start))
       = ''0:12:Cannot allocate memory'' @ [CHR 0x0A]
   \<and> darwin_nomem [''a''] = (darwin [''a''])\<lparr>copyfile_state_alloc := (\<lambda>e. (None, 12))\<rparr>
   \<and> copyfile_state_alloc (darwin [''a'']) 0 = (Some 1, 0)
   \<and> calls (snd (copyfile_R (darwin_nomem [''a'']) start))
       = calls (snd (copyfile_R (darwin [''a'']) start))"
  by (simp add: copyfile_R_run Let_def darwin_nomem_def darwin_def darwin_copyfile_def
      darwin_strerror_def COPYFILE_DEBUG_def fmt_i_i_s_def fmt_i_0 fmt_i_12 start_def)

text \<open>
  Claim C8 (amended). The context that the bound probe allocates is stored in \<open>s\<close>
  and is never passed to the copy primitive: the call gets a null state, and whatever the
  allocation returns, the arguments of the copy call, standard output and the value
  returned are the same. Two allocations that leave the same value in \<open>errno\<close> (as any
  two that leave \<open>errno\<close> as they found it do) also give the same printed text and the
  same final \<open>errno\<close>.
\<close>

theorem copyfile_R_state_unused:
  "state_arg (last (calls (snd (copyfile_R P w)))) = None
   \<and> var_s (snd (copyfile_R (P\<lparr>copyfile_state_alloc := A\<rparr>) w)) = fst (A 0)
   \<and> calls (snd (copyfile_R (P\<lparr>copyfile_state_alloc := A\<rparr>) w)) = calls (snd (copyfile_R P w))
   \<and> (snd (A 0) = snd (copyfile_state_alloc P 0) \<longrightarrow>
        errno (snd (copyfile_R (P\<lparr>copyfile_state_alloc := A\<rparr>) w)) = errno (snd (copyfile_R P w))
        \<and> console (snd (copyfile_R (P\<lparr>copyfile_state_alloc := A\<rparr>) w)) = console (snd (copyfile_R P w)))
   \<and> stdout (snd (copyfile_R (P\<lparr>copyfile_state_alloc := A\<rparr>) w)) = stdout (snd (copyfile_R P w))
   \<and> fst (copyfile_R (P\<lparr>copyfile_state_alloc := A\<rparr>) w) = fst (copyfile_R P w)"
  by (simp add: copyfile_R_run Let_def)

theorem copyfile_R_state_unused_witness:
  "snd ((\<lambda>e. (None :: copyfile_state_t, e)) (0 :: cint)) = snd (copyfile_state_alloc (darwin [''a'']) 0)
   \<and> var_s (snd (copyfile_R (darwin [''a'']) start)) = Some 1
   \<and> var_s (snd (copyfile_R ((darwin [''a''])\<lparr>copyfile_state_alloc := (\<lambda>e. (None, e))\<rparr>) start)) = None
   \<and> console (snd (copyfile_R ((darwin [''a''])\<lparr>copyfile_state_alloc := (\<lambda>e. (None, e))\<rparr>) start))
       = console (snd (copyfile_R (darwin [''a'']) start))"
  using copyfile_R_state_unused [of "darwin [''a'']" start "\<lambda>e. (None, e)"]
  by (simp add: copyfile_R_run Let_def darwin_def)

text \<open>
  Claim C10. \<open>COPYFILE_DEBUG\<close> is 1 shifted left by 31: in the 32-bit flags word it
  is bit 31 alone, the value \<open>2^31\<close> read unsigned and \<open>-2^31\<close> read as a signed
  \<open>int\<close> (the sign bit). The flags the bound probe passes are the bitwise or of
  \<open>COPYFILE_ALL\<close>, \<open>COPYFILE_EXCL\<close> and \<open>2^31\<close>.
\<close>

theorem COPYFILE_DEBUG_bit_31:
  "COPYFILE_DEBUG = push_bit 31 1
   \<and> COPYFILE_DEBUG = 2 ^ 31
   \<and> unat COPYFILE_DEBUG = 2 ^ 31
   \<and> sint COPYFILE_DEBUG = - (2 ^ 31)
   \<and> bit COPYFILE_DEBUG 31
   \<and> take_bit 31 COPYFILE_DEBUG = 0
   \<and> map flags_arg (calls (snd (copyfile_R P w))) =
        map flags_arg (calls w) @ [(COPYFILE_ALL P OR COPYFILE_EXCL P) OR 2 ^ 31]"
  by (simp add: copyfile_R_run Let_def COPYFILE_DEBUG_def)

theorem COPYFILE_DEBUG_bit_31_witness:
  "map flags_arg (calls (snd (copyfile_R (darwin []) start))) = [0x8002000F]
   \<and> unat COPYFILE_DEBUG = 2147483648 \<and> sint COPYFILE_DEBUG = - 2147483648"
  using COPYFILE_DEBUG_bit_31 [of "darwin []" start]
  by (simp add: darwin_def start_def)

section \<open>The two probes compared\<close>

text \<open>
  Claim C3 as stated does not hold: the two probes do not print the same text. On a
  platform where \<open>"a"\<close> exists and \<open>"b"\<close> does not, the copy succeeds for both
  (return value 0, \<open>errno\<close> 0): the standalone probe run on \<open>a b\<close> prints nothing,
  the bound probe prints \<open>0:0:Undefined error: 0\<close> and a newline.
\<close>

theorem probes_output_counterexample:
  "copyfile (darwin [''a''])
     \<lparr>from_arg = Some ''a'', to_arg = Some ''b'', state_arg = None,
      flags_arg = COPYFILE_ALL (darwin [''a'']) OR COPYFILE_EXCL (darwin [''a''])\<rparr> 0 = (0, 0)
   \<and> copyfile (darwin [''a''])
     \<lparr>from_arg = Some ''a'', to_arg = Some ''b'', state_arg = None,
      flags_arg = (COPYFILE_ALL (darwin [''a'']) OR COPYFILE_EXCL (darwin [''a'']))
                    OR COPYFILE_DEBUG\<rparr>
     (snd (copyfile_state_alloc (darwin [''a'']) 0)) = (0, 0)
   \<and> map_option (stdout \<circ> snd) (main (darwin [''a'']) 3 [''test'', ''a'', ''b''] start) = Some []
   \<and> console (snd (copyfile_R (darwin [''a'']) start)) = ''0:0:Undefined error: 0'' @ [CHR 0x0A]
   \<and> map_option (stdout \<circ> snd) (main (darwin [''a'']) 3 [''test'', ''a'', ''b''] start)
       \<noteq> Some (console (snd (copyfile_R (darwin [''a'']) start)))"
  by (simp add: main_run [OF argv_read_paths] copyfile_R_run Let_def darwin_def
      darwin_copyfile_def darwin_strerror_def COPYFILE_DEBUG_def fmt_i_i_s_def fmt_i_0 start_def)

text \<open>
  Claim C3 (amended). The bound probe makes the copy call of the standalone probe run on
  \<open>a b\<close>, up to the debug bit: the same two paths, the same null state, and the same
  flags with \<open>COPYFILE_DEBUG\<close> or-ed in. For every outcome (result \<open>res\<close>,
  \<open>errno\<close> \<open>e\<close>) that the primitive gives to both calls, the bound probe prints
  \<open><result>:<errno>:<error-string>\<close> and a newline on the R console, and the
  standalone probe prints that text, without the newline, on standard output when the
  result is -1 and prints nothing otherwise.
\<close>

theorem probes_same_call_up_to_debug:
  "let c = \<lparr>from_arg = Some ''a'', to_arg = Some ''b'', state_arg = None,
              flags_arg = COPYFILE_ALL P OR COPYFILE_EXCL P\<rparr>;
       c' = c\<lparr>flags_arg := flags_arg c OR COPYFILE_DEBUG\<rparr>;
       txt = fmt_i res @ '':'' @ fmt_i e @ '':'' @ strerror P e
   in map_option (calls \<circ> snd) (main P argc [prog, ''a'', ''b''] w) = Some (calls w @ [c])
      \<and> calls (snd (copyfile_R P v)) = calls v @ [c']
      \<and> (copyfile P c 0 = (res, e) \<and> copyfile P c' (snd (copyfile_state_alloc P 0)) = (res, e)
          \<longrightarrow> console (snd (copyfile_R P v)) = console v @ txt @ [CHR 0x0A]
              \<and> map_option (stdout \<circ> snd) (main P argc [prog, ''a'', ''b''] w)
                  = Some (stdout w @ (if res = - 1 then txt else [])))"
  by (simp add: main_run [OF argv_read_paths] copyfile_R_run Let_def fmt_i_i_s_def)

theorem probes_same_call_up_to_debug_witness:
  "copyfile (darwin [''a'', ''b''])
     \<lparr>from_arg = Some ''a'', to_arg = Some ''b'', state_arg = None,
      flags_arg = COPYFILE_ALL (darwin [''a'', ''b'']) OR COPYFILE_EXCL (darwin [''a'', ''b''])\<rparr> 0
     = (- 1, 17)
   \<and> copyfile (darwin [''a'', ''b''])
     \<lparr>from_arg = Some ''a'', to_arg = Some ''b'', state_arg = None,
      flags_arg = (COPYFILE_ALL (darwin [''a'', ''b'']) OR COPYFILE_EXCL (darwin [''a'', ''b'']))
                    OR COPYFILE_DEBUG\<rparr>
     (snd (copyfile_state_alloc (darwin [''a'', ''b'']) 0)) = (- 1, 17)
   \<and> map_option (stdout \<circ> snd) (main (darwin [''a'', ''b'']) 3 [''test'', ''a'', ''b''] start)
       = Some ''-1:17:File exists''
   \<and> console (snd (copyfile_R (darwin [''a'', ''b'']) start)) = ''-1:17:File exists'' @ [CHR 0x0A]"
  using probes_same_call_up_to_debug [where res = "- 1" and e = 17 and P = "darwin [''a'', ''b'']"
      and argc = 3 and prog = "''test''" and w = start and v = start]
  by (simp add: Let_def darwin_def darwin_copyfile_def darwin_strerror_def
      COPYFILE_DEBUG_def fmt_i_17 fmt_i_minus_one start_def)

section \<open>The argument vector of the standalone probe\<close>

text \<open>
  Claim C9 as stated does not hold: with one path argument (\<open>argc = 2\<close>) both
  reads are already within bounds: slot 1 is the path and slot 2 is the null pointer that
  ends the vector. The probe then calls the copy primitive with a null destination.
\<close>

theorem main_argv_bounds_counterexample:
  "argv_read [''test'', ''a''] 1 = Some (Some ''a'')
   \<and> argv_read [''test'', ''a''] 2 = Some None
   \<and> \<not> 3 \<le> length [''test'', ''a'']
   \<and> map_option fst (main (darwin [''a'']) 2 [''test'', ''a''] start) = Some 22
   \<and> map_option (stdout \<circ> snd) (main (darwin [''a'']) 2 [''test'', ''a''] start)
       = Some ''-1:22:Invalid argument''"
  by (simp add: main_def argv_read_def call_copyfile_def printf_def Let_def darwin_def
      darwin_copyfile_def darwin_strerror_def fmt_i_i_s_def fmt_i_22 fmt_i_minus_one start_def)

text \<open>
  Claim C9 (amended). The standalone probe reads slots 1 and 2 of \<open>argv\<close> without
  looking at \<open>argc\<close> (its result does not depend on it). Both reads are within bounds
  exactly when \<open>argv\<close> holds at least two strings, that is when at least one path
  argument was supplied, and exactly then the probe runs; with exactly one path argument
  slot 2 is the terminating null pointer. Both slots hold a path string exactly when at
  least two path arguments were supplied.
\<close>

theorem main_argv_bounds:
  "main P argc argv w = main P argc' argv w
   \<and> ((argv_read argv 1 \<noteq> None \<and> argv_read argv 2 \<noteq> None) = (2 \<le> length argv))
   \<and> ((main P argc argv w = None) = (length argv < 2))
   \<and> ((\<exists>a b. argv_read argv 1 = Some (Some a) \<and> argv_read argv 2 = Some (Some b))
        = (3 \<le> length argv))
   \<and> (length argv = 2 \<longrightarrow> argv_read argv 2 = Some None)"
  by (auto simp add: main_def argv_read_def call_copyfile_def Let_def split: option.splits)

theorem main_argv_bounds_witness:
  "length [''test'', ''a''] = 2
   \<and> argv_read [''test'', ''a''] 2 = Some None
   \<and> main (darwin [''a'']) 2 [''test'', ''a''] start \<noteq> None
   \<and> main (darwin [''a'']) 1 [''test''] start = None
   \<and> main (darwin [''a'']) 2 [''test'', ''a''] start = main (darwin [''a'']) 3 [''test'', ''a''] start"
proof -
  note two = main_argv_bounds [of "darwin [''a'']" 2 "[''test'', ''a'']" start 3]
  note one = main_argv_bounds [of "darwin [''a'']" 1 "[''test'']" start 1]
  have a: "main (darwin [''a'']) 2 [''test'', ''a''] start = main (darwin [''a'']) 3 [''test'', ''a''] start"
    by (rule two [THEN conjunct1])
  have b: "main (darwin [''a'']) 2 [''test'', ''a''] start \<noteq> None"
    using two [THEN conjunct2, THEN conjunct2, THEN conjunct1] by simp
  have c: "main (darwin [''a'']) 1 [''test''] start = None"
    using one [THEN conjunct2, THEN conjunct2, THEN conjunct1] by simp
  have d: "argv_read [''test'', ''a''] 2 = Some None"
    using two [THEN conjunct2, THEN conjunct2, THEN conjunct2, THEN conjunct2] by simp
  show ?thesis
    using a b c d by simp
qed

end
